theory Spec2Isabelle
  imports
    Main
    "HOL-Library.Word"
    "HOL-Library.AList"
    "HOL-Library.DAList"
    "HOL-Library.Char_ord"
    "HOL-Library.List_Lexorder"
begin

unbundle bit_operations_syntax

section \<open>Errors\<close>

text \<open>
  The error values the deploy package returns. \<open>ErrManagerClosed\<close> and
  \<open>ErrInstanceNotInPool\<close> are the package's two sentinel variables; \<open>ErrorsNew msg\<close> is
  an ad-hoc \<^verbatim>\<open>errors.New(msg)\<close> (\<^verbatim>\<open>"closed"\<close>, \<^verbatim>\<open>"cleanup timed out"\<close>, or the status
  text of a response); \<open>LibError msg\<close> is an error handed back by net/http, io or
  encoding/json. \<open>NilDereference\<close> is not an error value: it stands for the run-time panic
  of reading a field through a nil pointer, after which the call does not return
  normally.
\<close>

datatype error =
    ErrManagerClosed
  | ErrInstanceNotInPool
  | ErrorsNew string
  | LibError string
  | NilDereference

section \<open>Data model (package deploy)\<close>

record VM =
  Platform :: string
  App :: string
  Version :: string

record SpawnArgs =
  Platform :: string
  App :: string
  Version :: string

record InstanceStatus =
  Deployer :: string
  App :: string
  Version :: string
  Hostname :: string
  IP :: string
  URLs :: "string list"

text \<open>
  A Go \<^verbatim>\<open>map[string]T\<close> is an association list in which every key occurs once, the type
  \<open>(string, T) alist\<close>. \<^verbatim>\<open>m[k]\<close> is \<open>DAList.lookup\<close>, \<^verbatim>\<open>m[k] = v\<close> is \<open>DAList.update\<close>,
  \<^verbatim>\<open>delete(m, k)\<close> is \<open>DAList.delete\<close>, \<^verbatim>\<open>make\<close> is \<open>DAList.empty\<close>, and the pairs a
  \<^verbatim>\<open>range\<close> visits are those of \<open>DAList.impl_of\<close>. The content of a map is its \<open>lookup\<close>
  function: two lists with the same pairs in another order are the same Go map. The
  maps of this package are always made with \<^verbatim>\<open>make\<close> before they are stored, so a nil
  map does not occur; a nil \<^emph>\<open>pointer\<close> to a goal or state does, and is modelled below.
\<close>

record DeploymentGoal =
  children :: "(string, VM) alist"

record DeploymentState =
  children :: "(string, InstanceStatus) alist"

section \<open>encoding/json, as far as the goal document needs it\<close>

text \<open>
  \<^verbatim>\<open>json.Marshal\<close> writes a string between double quotes, with \<^verbatim>\<open>"\<close> and \<^verbatim>\<open>\\<close> preceded by a
  backslash, newline, carriage return and tab as \<^verbatim>\<open>\n\<close>, \<^verbatim>\<open>\r\<close>, \<^verbatim>\<open>\t\<close>, and every other
  byte below 0x20 as well as \<^verbatim>\<open><\<close>, \<^verbatim>\<open>>\<close>, \<^verbatim>\<open>&\<close> as \<^verbatim>\<open>\u00XX\<close> (lower-case hex), as the Go
  releases of the time of this package do (from Go 1.22 on, 0x08 and 0x0C are written
  as \<^verbatim>\<open>\b\<close> and \<^verbatim>\<open>\f\<close>). Bytes from 0x80 on are copied, which is what the library does
  for well-formed UTF-8 other than U+2028 and U+2029; ill-formed UTF-8 is not modelled.
  No statement below encodes a string with such bytes. Encoding a string
  or a map of strings has no error case: the error results below are always nil, and
  are kept because the source tests them.
\<close>

definition hextable :: string where
  "hextable = ''0123456789abcdef''"

definition backslash :: char where
  "backslash = CHR 0x5C"

definition dquote :: char where
  "dquote = CHR 0x22"

definition encodeByte :: "char \<Rightarrow> string" where
  "encodeByte b =
     (if b = backslash \<or> b = dquote then [backslash, b]
      else if b = CHR 0x0A then [backslash, CHR ''n'']
      else if b = CHR 0x0D then [backslash, CHR ''r'']
      else if b = CHR 0x09 then [backslash, CHR ''t'']
      else if (of_char b :: nat) < 0x20 \<or> b = CHR ''<'' \<or> b = CHR ''>'' \<or> b = CHR ''&''
      then [backslash] @ ''u00'' @
           [hextable ! ((of_char b :: nat) div 16), hextable ! ((of_char b :: nat) mod 16)]
      else [b])"

definition encodeString :: "string \<Rightarrow> string" where
  "encodeString s = [dquote] @ concat (map encodeByte s) @ [dquote]"

fun joinComma :: "string list \<Rightarrow> string" where
  "joinComma [] = []"
| "joinComma [x] = x"
| "joinComma (x # y # ys) = x @ '','' @ joinComma (y # ys)"

text \<open>
  The map encoder of encoding/json: \<^emph>\<open>the map keys are sorted\<close> (byte-wise, which is the
  order of \<open>string\<close> here) and written as \<^verbatim>\<open>"key":value\<close> pairs separated by commas.
  The second components are the values, already encoded.
\<close>

definition encodeMap :: "(string \<times> string) list \<Rightarrow> string" where
  "encodeMap kvs =
     ''{'' @ joinComma (map (\<lambda>(k, v). encodeString k @ '':'' @ v) (sort_key fst kvs)) @ ''}''"

text \<open>The values of a \<^verbatim>\<open>map[string]interface{}\<close> that \<^verbatim>\<open>VM.MarshalJSON\<close> builds.\<close>

datatype iface = IString string | INil

fun encodeIface :: "iface \<Rightarrow> string" where
  "encodeIface (IString s) = encodeString s"
| "encodeIface INil = ''null''"

definition json_Marshal_ifacemap :: "(string \<times> iface) list \<Rightarrow> error + string" where
  "json_Marshal_ifacemap m = Inr (encodeMap (map (\<lambda>(k, v). (k, encodeIface v)) m))"

text \<open>
  \<^verbatim>\<open>func (x *VM) MarshalJSON() ([]byte, error)\<close>: the map literal in the order of the
  source, handed to \<^verbatim>\<open>json.Marshal\<close>.
\<close>

definition VM_MarshalJSON :: "VM \<Rightarrow> error + string" where
  "VM_MarshalJSON x =
     json_Marshal_ifacemap
       [(''platform'', IString (VM.Platform x)),
        (''app'', IString (VM.App x)),
        (''type'', IString ''vm''),
        (''version'', IString (VM.Version x)),
        (''customization'', INil)]"

text \<open>
  \<^verbatim>\<open>json.Marshal(g.children)\<close> on a \<^verbatim>\<open>map[string]*VM\<close>: every value is encoded by its
  own \<^verbatim>\<open>MarshalJSON\<close> (whose output, compact already, the library copies as it is), the
  first error aborts, and the pairs go through the map encoder.
\<close>

fun encodeElems :: "(string \<times> VM) list \<Rightarrow> error + (string \<times> string) list" where
  "encodeElems [] = Inr []"
| "encodeElems ((k, v) # kvs) =
     (case VM_MarshalJSON v of
        Inl e \<Rightarrow> Inl e
      | Inr b \<Rightarrow>
          (case encodeElems kvs of
             Inl e \<Rightarrow> Inl e
           | Inr bs \<Rightarrow> Inr ((k, b) # bs)))"

definition json_Marshal_children :: "(string, VM) alist \<Rightarrow> error + string" where
  "json_Marshal_children m =
     (case encodeElems (DAList.impl_of m) of
        Inl e \<Rightarrow> Inl e
      | Inr bs \<Rightarrow> Inr (encodeMap bs))"

text \<open>\<^verbatim>\<open>func (g *DeploymentGoal) MarshalJSON() ([]byte, error)\<close>.\<close>

definition DeploymentGoal_MarshalJSON :: "DeploymentGoal \<Rightarrow> error + string" where
  \<open>DeploymentGoal_MarshalJSON g =
     (case json_Marshal_children (DeploymentGoal.children g) of
        Inl e \<Rightarrow> Inl e
      | Inr cs \<Rightarrow> Inr (''{"type":"subtree","children":'' @ cs @ ''}''))\<close>

section \<open>The HTTP client (api.Client) and the remote API\<close>

text \<open>
  The remote system is outside the program. Its state is a value of an arbitrary type
  \<open>'w\<close>, and everything the program cannot decide by itself is a field of the
  environment:
  \<^item> \<open>url_error\<close>: the error, if any, \<^verbatim>\<open>http.NewRequest\<close> finds in a URL;
  \<^item> \<open>round_trip\<close>: what \<^verbatim>\<open>http.Client.Do\<close> answers to a request, and the remote state
    after it;
  \<^item> \<open>timeout_first\<close>: whether, in a \<^verbatim>\<open>select\<close> between the result channel and the
    60 second timer, the timer is the case that fires;
  \<^item> \<open>unmarshal_state\<close>: \<^verbatim>\<open>json.Unmarshal\<close> of a response body into a
    \<^verbatim>\<open>DeploymentState\<close>;
  \<^item> \<open>range_order\<close>: the order in which \<^verbatim>\<open>range\<close> visits the Manager's registry.

  A call of \<open>round_trip\<close> is a request that has been answered; a request that is never
  answered is not modelled. The \<^verbatim>\<open>*api.Client\<close> of a Manager is not nil.
\<close>

record request =
  Method :: string
  URL :: string
  Content :: "string option"
  Authorization :: "string option"

record response =
  StatusCode :: int
  Status :: string
  Body :: "error + string"

record Client =
  jwt :: string
  domain :: string

type_synonym ref = nat

record 'w env =
  url_error :: "string \<Rightarrow> error option"
  round_trip :: "'w \<Rightarrow> request \<Rightarrow> (error + response) \<times> 'w"
  timeout_first :: "'w \<Rightarrow> bool"
  unmarshal_state :: "string \<Rightarrow> error + DeploymentState"
  range_order :: "(string, ref) alist \<Rightarrow> (string \<times> ref) list"

definition http_NewRequest ::
  "'w env \<Rightarrow> string \<Rightarrow> string \<Rightarrow> string option \<Rightarrow> error + request" where
  "http_NewRequest env m u b =
     (case url_error env u of
        Some e \<Rightarrow> Inl e
      | None \<Rightarrow> Inr \<lparr>Method = m, URL = u, Content = b, Authorization = None\<rparr>)"

text \<open>\<^verbatim>\<open>Client.URL\<close> with the format of the deployments API and its two arguments.\<close>

definition Client_URL :: "Client \<Rightarrow> string \<Rightarrow> string" where
  "Client_URL c path = domain c @ ''/'' @ path"

definition deployment_URL :: "Client \<Rightarrow> string \<Rightarrow> string \<Rightarrow> string" where
  "deployment_URL c org name =
     Client_URL c (''deployments/api/v3/orgs/'' @ org @ ''/deployments/'' @ name)"

definition Client_Do ::
  "'w env \<Rightarrow> Client \<Rightarrow> 'w \<Rightarrow> request \<Rightarrow> (error + response) \<times> 'w" where
  "Client_Do env c w r = round_trip env w (r\<lparr>Authorization := Some (''Bearer '' @ jwt c)\<rparr>)"

text \<open>\<^verbatim>\<open>func (g *DeploymentGoal) Push(client, org, name) error\<close>; \<open>None\<close> is a nil error.\<close>

definition Push ::
  "'w env \<Rightarrow> Client \<Rightarrow> DeploymentGoal \<Rightarrow> string \<Rightarrow> string \<Rightarrow> 'w \<Rightarrow> error option \<times> 'w" where
  "Push env c g org name w =
     (case DeploymentGoal_MarshalJSON g of
        Inl e \<Rightarrow> (Some e, w)
      | Inr pl \<Rightarrow>
          (case http_NewRequest env ''POST'' (deployment_URL c org name) (Some pl) of
             Inl e \<Rightarrow> (Some e, w)
           | Inr req \<Rightarrow>
               (case Client_Do env c w req of
                  (Inl e, w') \<Rightarrow> (Some e, w')
                | (Inr resp, w') \<Rightarrow>
                    if StatusCode resp \<noteq> 200 then (Some (ErrorsNew (Status resp)), w')
                    else (None, w'))))"

definition CreateDeployment ::
  "'w env \<Rightarrow> Client \<Rightarrow> string \<Rightarrow> string \<Rightarrow> 'w \<Rightarrow> error option \<times> 'w" where
  \<open>CreateDeployment env c org name w =
     (case http_NewRequest env ''PUT'' (deployment_URL c org name)
             (Some ''{"type":"subtree","children":{}}'') of
        Inl e \<Rightarrow> (Some e, w)
      | Inr req \<Rightarrow>
          (case Client_Do env c w req of
             (Inl e, w') \<Rightarrow> (Some e, w')
           | (Inr resp, w') \<Rightarrow>
               if StatusCode resp \<noteq> 200 then (Some (ErrorsNew (Status resp)), w')
               else (None, w')))\<close>

definition DeleteDeployment ::
  "'w env \<Rightarrow> Client \<Rightarrow> string \<Rightarrow> string \<Rightarrow> 'w \<Rightarrow> error option \<times> 'w" where
  "DeleteDeployment env c org name w =
     (case http_NewRequest env ''DELETE'' (deployment_URL c org name) None of
        Inl e \<Rightarrow> (Some e, w)
      | Inr req \<Rightarrow>
          (case Client_Do env c w req of
             (Inl e, w') \<Rightarrow> (Some e, w')
           | (Inr resp, w') \<Rightarrow>
               if StatusCode resp \<noteq> 200 then (Some (ErrorsNew (Status resp)), w')
               else (None, w')))"

definition GetDeployment ::
  "'w env \<Rightarrow> Client \<Rightarrow> string \<Rightarrow> string \<Rightarrow> 'w \<Rightarrow> (error + DeploymentState) \<times> 'w" where
  "GetDeployment env c org name w =
     (case http_NewRequest env ''GET'' (deployment_URL c org name) None of
        Inl e \<Rightarrow> (Inl e, w)
      | Inr req \<Rightarrow>
          (case Client_Do env c w req of
             (Inl e, w') \<Rightarrow> (Inl e, w')
           | (Inr resp, w') \<Rightarrow>
               if StatusCode resp \<noteq> 200 then (Inl (ErrorsNew (Status resp)), w')
               else (case Body resp of
                       Inl e \<Rightarrow> (Inl e, w')
                     | Inr pl \<Rightarrow> (unmarshal_state env pl, w'))))"

section \<open>Goal snapshots on the heap\<close>

text \<open>
  A \<^verbatim>\<open>*DeploymentGoal\<close> is an address into a heap of goal objects, or nil (\<open>None\<close>):
  \<^verbatim>\<open>Attach\<close> and \<^verbatim>\<open>Detach\<close> write through the pointer, so two pointers to one object
  see each other's writes. \<^verbatim>\<open>new\<close> takes the next address. Reading a field through nil
  panics: the operations return \<open>None\<close> then. An address beyond the heap is no pointer
  the program can hold, and is read like nil. Every goal object is made together with
  its map (in \<^verbatim>\<open>NewPool\<close> and in \<^verbatim>\<open>Copy\<close>) and no map is shared by two objects, so the map
  is part of the object.
\<close>

definition deref :: "'a list \<Rightarrow> ref option \<Rightarrow> 'a option" where
  "deref h r =
     (case r of
        None \<Rightarrow> None
      | Some a \<Rightarrow> if a < length h then Some (h ! a) else None)"

definition Attach ::
  "DeploymentGoal list \<Rightarrow> ref option \<Rightarrow> string \<Rightarrow> VM \<Rightarrow> DeploymentGoal list option" where
  "Attach h g ident vm =
     (case g of
        None \<Rightarrow> None
      | Some a \<Rightarrow>
          (case deref h g of
             None \<Rightarrow> None
           | Some obj \<Rightarrow>
               Some (h[a := obj\<lparr>DeploymentGoal.children :=
                                 DAList.update ident vm (DeploymentGoal.children obj)\<rparr>])))"

definition Detach ::
  "DeploymentGoal list \<Rightarrow> ref option \<Rightarrow> string \<Rightarrow> DeploymentGoal list option" where
  "Detach h g ident =
     (case g of
        None \<Rightarrow> None
      | Some a \<Rightarrow>
          (case deref h g of
             None \<Rightarrow> None
           | Some obj \<Rightarrow>
               Some (h[a := obj\<lparr>DeploymentGoal.children :=
                                 DAList.delete ident (DeploymentGoal.children obj)\<rparr>])))"

text \<open>
  \<^verbatim>\<open>Copy\<close>: a new object with a new map, filled by one assignment per entry of the
  source map (the map that results does not depend on the order of the visits). It
  returns the new pointer and the heap.
\<close>

definition Copy :: "DeploymentGoal list \<Rightarrow> ref option \<Rightarrow> (ref \<times> DeploymentGoal list) option" where
  "Copy h g =
     (case deref h g of
        None \<Rightarrow> None
      | Some obj \<Rightarrow>
          Some (length h,
                h @ [\<lparr>DeploymentGoal.children =
                        fold (\<lambda>(k, v) n. DAList.update k v n)
                          (DAList.impl_of (DeploymentGoal.children obj)) DAList.empty\<rparr>]))"

text \<open>
  A sequence of \<^verbatim>\<open>Attach\<close> and \<^verbatim>\<open>Detach\<close> calls on one pointer.
\<close>

datatype goal_op = OpAttach string VM | OpDetach string

fun applyOps ::
  "DeploymentGoal list \<Rightarrow> ref option \<Rightarrow> goal_op list \<Rightarrow> DeploymentGoal list option" where
  "applyOps h g [] = Some h"
| "applyOps h g (OpAttach k vm # ops) =
     (case Attach h g k vm of None \<Rightarrow> None | Some h' \<Rightarrow> applyOps h' g ops)"
| "applyOps h g (OpDetach k # ops) =
     (case Detach h g k of None \<Rightarrow> None | Some h' \<Rightarrow> applyOps h' g ops)"

section \<open>Manager and Pool (package deploy)\<close>

text \<open>
  A \<^verbatim>\<open>*Pool\<close> is an address into a heap of Pool objects: the registry of the Manager
  and the caller hold the same Pool. \<open>goal\<close> points into the heap of goal objects;
  \<open>state\<close> is the \<^verbatim>\<open>*DeploymentState\<close>, whose object is never written after it is stored,
  so the field holds the object itself, and \<open>None\<close> for nil. The field \<^verbatim>\<open>mgr\<close> always
  points to the Manager that made the Pool; the system below has that one Manager
  (\<open>closed\<close>, \<open>client\<close>, \<open>pools\<close>), the two heaps and the state of the remote side.
\<close>

record Pool =
  org :: string
  name :: string
  goal :: "ref option"
  state :: "DeploymentState option"

record 'w sys =
  closed :: bool
  client :: Client
  pools :: "(string, ref) alist"
  pool_heap :: "Pool list"
  goal_heap :: "DeploymentGoal list"
  remote :: 'w

definition key :: "Pool \<Rightarrow> string" where
  "key p = org p @ ''::'' @ name p"

text \<open>
  \<^verbatim>\<open>Manager.NewPool\<close>. The second test of \<^verbatim>\<open>m.closed\<close> is the one under the lock. The
  result is the new \<^verbatim>\<open>*Pool\<close>.
\<close>

definition NewPool :: "'w env \<Rightarrow> 'w sys \<Rightarrow> string \<Rightarrow> string \<Rightarrow> (error + ref) \<times> 'w sys" where
  "NewPool env s org' name' =
     (if closed s then (Inl ErrManagerClosed, s)
      else
        let g = length (goal_heap s);
            p = length (pool_heap s);
            pl = \<lparr>org = org', name = name', goal = Some g,
                  state = Some \<lparr>DeploymentState.children = DAList.empty\<rparr>\<rparr>;
            s1 = s\<lparr>goal_heap := goal_heap s @ [\<lparr>DeploymentGoal.children = DAList.empty\<rparr>],
                   pool_heap := pool_heap s @ [pl]\<rparr>
        in if closed s1 then (Inl (ErrorsNew ''closed''), s1)
           else
             let s2 = s1\<lparr>pools := DAList.update (key pl) p (pools s1)\<rparr>
             in (case CreateDeployment env (client s2) org' name' (remote s2) of
                   (Some e, w') \<Rightarrow> (Inl e, s2\<lparr>remote := w'\<rparr>)
                 | (None, w') \<Rightarrow> (Inr p, s2\<lparr>remote := w'\<rparr>)))"

text \<open>\<^verbatim>\<open>Pool.Instances\<close>: the keys of the goal, sorted.\<close>

definition Instances :: "'w sys \<Rightarrow> ref \<Rightarrow> error + string list" where
  "Instances s p =
     (case deref (pool_heap s) (Some p) of
        None \<Rightarrow> Inl NilDereference
      | Some pl \<Rightarrow>
          (case deref (goal_heap s) (goal pl) of
             None \<Rightarrow> Inl NilDereference
           | Some g \<Rightarrow> Inr (sort (map fst (DAList.impl_of (DeploymentGoal.children g))))))"

text \<open>\<^verbatim>\<open>hex.EncodeToString\<close>.\<close>

definition hexByte :: "8 word \<Rightarrow> string" where
  "hexByte b = [hextable ! unat (drop_bit 4 b), hextable ! unat (b AND 0x0F)]"

definition hex_EncodeToString :: "8 word list \<Rightarrow> string" where
  "hex_EncodeToString bs = concat (map hexByte bs)"

text \<open>
  \<^verbatim>\<open>Pool.Spawn\<close>. \<open>src\<close> is the content of the four-byte buffer after \<^verbatim>\<open>rand.Read\<close>,
  \<open>args\<close> the \<^verbatim>\<open>SpawnArgs\<close> the argument points to. The new goal object stays on the heap
  when the push fails; no pointer to it is left.
\<close>

definition Spawn ::
  "'w env \<Rightarrow> 8 word list \<Rightarrow> 'w sys \<Rightarrow> ref \<Rightarrow> SpawnArgs \<Rightarrow> (error + string) \<times> 'w sys" where
  "Spawn env src s p args =
     (case deref (pool_heap s) (Some p) of
        None \<Rightarrow> (Inl NilDereference, s)
      | Some pl \<Rightarrow>
          if closed s then (Inl ErrManagerClosed, s)
          else
            let ident = hex_EncodeToString src
            in (case Copy (goal_heap s) (goal pl) of
                  None \<Rightarrow> (Inl NilDereference, s)
                | Some (g, h1) \<Rightarrow>
                    (case Attach h1 (Some g) ident
                            \<lparr>VM.Platform = SpawnArgs.Platform args,
                             VM.App = SpawnArgs.App args,
                             VM.Version = SpawnArgs.Version args\<rparr> of
                       None \<Rightarrow> (Inl NilDereference, s\<lparr>goal_heap := h1\<rparr>)
                     | Some h2 \<Rightarrow>
                         (case Push env (client s) (h2 ! g) (org pl) (name pl) (remote s) of
                            (Some e, w') \<Rightarrow> (Inl e, s\<lparr>goal_heap := h2, remote := w'\<rparr>)
                          | (None, w') \<Rightarrow>
                              (Inr ident,
                               s\<lparr>goal_heap := h2, remote := w',
                                 pool_heap := (pool_heap s)[p := pl\<lparr>goal := Some g\<rparr>]\<rparr>)))))"

text \<open>\<^verbatim>\<open>Pool.Destroy\<close>: the value of \<^verbatim>\<open>Push\<close> is dropped, the result is nil.\<close>

definition Destroy :: "'w env \<Rightarrow> 'w sys \<Rightarrow> ref \<Rightarrow> string \<Rightarrow> error option \<times> 'w sys" where
  "Destroy env s p ident =
     (case deref (pool_heap s) (Some p) of
        None \<Rightarrow> (Some NilDereference, s)
      | Some pl \<Rightarrow>
          if closed s then (Some ErrManagerClosed, s)
          else
            (case goal pl of
               None \<Rightarrow> (Some NilDereference, s)
             | Some g \<Rightarrow>
            (case Detach (goal_heap s) (Some g) ident of
               None \<Rightarrow> (Some NilDereference, s)
             | Some h1 \<Rightarrow>
                 (case Push env (client s) (h1 ! g) (org pl) (name pl) (remote s) of
                    (r, w') \<Rightarrow> (None, s\<lparr>goal_heap := h1, remote := w'\<rparr>)))))"

text \<open>
  The goal object \<^verbatim>\<open>Spawn\<close> pushes: the entries of the Pool's goal \<open>g\<close> and, under the
  new identifier, the \<^verbatim>\<open>VM\<close> made from the arguments.
\<close>

definition spawned :: "DeploymentGoal \<Rightarrow> 8 word list \<Rightarrow> SpawnArgs \<Rightarrow> DeploymentGoal" where
  "spawned g src args =
     \<lparr>DeploymentGoal.children =
        DAList.update (hex_EncodeToString src)
          \<lparr>VM.Platform = SpawnArgs.Platform args, VM.App = SpawnArgs.App args,
           VM.Version = SpawnArgs.Version args\<rparr>
          (DeploymentGoal.children g)\<rparr>"

definition zeroStatus :: InstanceStatus where
  "zeroStatus =
     \<lparr>Deployer = [], InstanceStatus.App = [], InstanceStatus.Version = [],
      Hostname = [], IP = [], URLs = []\<rparr>"

text \<open>\<^verbatim>\<open>Pool.Status\<close>.\<close>

definition Status :: "'w sys \<Rightarrow> ref \<Rightarrow> string \<Rightarrow> error + InstanceStatus" where
  "Status s p ident =
     (case deref (pool_heap s) (Some p) of
        None \<Rightarrow> Inl NilDereference
      | Some pl \<Rightarrow>
          (case state pl of
             None \<Rightarrow> Inl NilDereference
           | Some st \<Rightarrow>
               (case DAList.lookup (DeploymentState.children st) ident of
                  Some v \<Rightarrow> Inr v
                | None \<Rightarrow>
                    (case deref (goal_heap s) (goal pl) of
                       None \<Rightarrow> Inl NilDereference
                     | Some g \<Rightarrow>
                         (case DAList.lookup (DeploymentGoal.children g) ident of
                            None \<Rightarrow> Inl ErrInstanceNotInPool
                          | Some vm \<Rightarrow> Inr zeroStatus)))))"

text \<open>
  \<^verbatim>\<open>Pool.Close\<close>. The delete runs in a goroutine of its own; the \<^verbatim>\<open>select\<close> takes its
  result or the timer. When the timer fires the call is abandoned, not cancelled: the
  remote state is the one the call leaves.
\<close>

definition Pool_Close :: "'w env \<Rightarrow> 'w sys \<Rightarrow> ref \<Rightarrow> error option \<times> 'w sys" where
  "Pool_Close env s p =
     (case deref (pool_heap s) (Some p) of
        None \<Rightarrow> (Some NilDereference, s)
      | Some pl \<Rightarrow>
          (case DeleteDeployment env (client s) (org pl) (name pl) (remote s) of
             (r, w') \<Rightarrow>
               if timeout_first env (remote s)
               then (Some (ErrorsNew ''cleanup timed out''), s\<lparr>remote := w'\<rparr>)
               else (case r of
                       Some e \<Rightarrow> (Some e, s\<lparr>remote := w'\<rparr>)
                     | None \<Rightarrow>
                         (None,
                          s\<lparr>remote := w',
                            pool_heap := (pool_heap s)[p := pl\<lparr>goal := None, state := None\<rparr>],
                            pools := DAList.delete (key pl) (pools s)\<rparr>))))"

text \<open>\<^verbatim>\<open>Pool.Update\<close>, with the same \<^verbatim>\<open>select\<close>.\<close>

definition Update :: "'w env \<Rightarrow> 'w sys \<Rightarrow> ref \<Rightarrow> error option \<times> 'w sys" where
  "Update env s p =
     (case deref (pool_heap s) (Some p) of
        None \<Rightarrow> (Some NilDereference, s)
      | Some pl \<Rightarrow>
          if closed s then (Some ErrManagerClosed, s)
          else
            (case GetDeployment env (client s) (org pl) (name pl) (remote s) of
               (r, w') \<Rightarrow>
                 if timeout_first env (remote s)
                 then (Some (ErrorsNew ''cleanup timed out''), s\<lparr>remote := w'\<rparr>)
                 else (case r of
                         Inl e \<Rightarrow> (Some e, s\<lparr>remote := w'\<rparr>)
                       | Inr st \<Rightarrow>
                           (None,
                            s\<lparr>remote := w',
                              pool_heap := (pool_heap s)[p := pl\<lparr>state := Some st\<rparr>]\<rparr>))))"

text \<open>
  \<^verbatim>\<open>Manager.Close\<close>: the flag, the snapshot of the registry in the order \<^verbatim>\<open>range\<close>
  yields it, and the loop over the snapshot, which returns at the first error.
\<close>

fun closeList :: "'w env \<Rightarrow> 'w sys \<Rightarrow> ref list \<Rightarrow> error option \<times> 'w sys" where
  "closeList env s [] = (None, s)"
| "closeList env s (p # ps) =
     (case Pool_Close env s p of
        (Some e, s') \<Rightarrow> (Some e, s')
      | (None, s') \<Rightarrow> closeList env s' ps)"

definition snapshot :: "'w env \<Rightarrow> 'w sys \<Rightarrow> ref list" where
  "snapshot env s = map snd (range_order env (pools s))"

definition Manager_Close :: "'w env \<Rightarrow> 'w sys \<Rightarrow> error option \<times> 'w sys" where
  "Manager_Close env s =
     (let s1 = s\<lparr>closed := True\<rparr>
      in closeList env s1 (snapshot env s1))"

section \<open>Concrete systems\<close>

text \<open>
  What a Pool holds for an identifier: its entry in the Observed State and in the Goal
  State, \<open>None\<close> when the state is nil or has no such entry. A Pool is \<open>live\<close> when it
  holds both states, that is, from \<^verbatim>\<open>NewPool\<close> until a successful \<^verbatim>\<open>Close\<close>.
\<close>

definition observed :: "'w sys \<Rightarrow> ref \<Rightarrow> string \<Rightarrow> InstanceStatus option" where
  "observed s p ident =
     (case deref (pool_heap s) (Some p) of
        None \<Rightarrow> None
      | Some pl \<Rightarrow>
          (case state pl of
             None \<Rightarrow> None
           | Some st \<Rightarrow> DAList.lookup (DeploymentState.children st) ident))"

definition goalEntry :: "'w sys \<Rightarrow> ref \<Rightarrow> string \<Rightarrow> VM option" where
  "goalEntry s p ident =
     (case deref (pool_heap s) (Some p) of
        None \<Rightarrow> None
      | Some pl \<Rightarrow>
          (case deref (goal_heap s) (goal pl) of
             None \<Rightarrow> None
           | Some g \<Rightarrow> DAList.lookup (DeploymentGoal.children g) ident))"

definition live :: "'w sys \<Rightarrow> ref \<Rightarrow> bool" where
  "live s p =
     (case deref (pool_heap s) (Some p) of
        None \<Rightarrow> False
      | Some pl \<Rightarrow>
          (case state pl of
             None \<Rightarrow> False
           | Some st \<Rightarrow>
               (case deref (goal_heap s) (goal pl) of
                  None \<Rightarrow> False
                | Some g \<Rightarrow> True)))"

text \<open>
  The decoder of the remote sides below, given on the bodies they send: the state
  document without instances is decoded into the empty Observed State; for the body
  \<^verbatim>\<open>{}\<close>, \<^verbatim>\<open>DeploymentState.UnmarshalJSON\<close> fails on the missing key; any other body is
  not one of theirs.
\<close>

definition decodeBody :: "string \<Rightarrow> error + DeploymentState" where
  \<open>decodeBody b =
     (if b = ''{"state":{"children":{}}}''
      then Inr \<lparr>DeploymentState.children = DAList.empty\<rparr>
      else if b = ''{}'' then Inl (ErrorsNew ''missing 'state' key'')
      else Inl (LibError ''body not modelled''))\<close>

text \<open>
  A remote side that logs every request it receives and answers it with a response
  chosen by the request; the timer never fires; \<^verbatim>\<open>range\<close> follows the list.
\<close>

definition answeringBy :: "(request \<Rightarrow> response) \<Rightarrow> (request list) env" where
  "answeringBy f =
     \<lparr>url_error = (\<lambda>u. None),
      round_trip = (\<lambda>w r. (Inr (f r), w @ [r])),
      timeout_first = (\<lambda>w. False),
      unmarshal_state = decodeBody,
      range_order = DAList.impl_of\<rparr>"

definition answering :: "response \<Rightarrow> (request list) env" where
  "answering resp = answeringBy (\<lambda>r. resp)"

text \<open>The same remote side, too slow: the timer fires first.\<close>

definition slow :: "response \<Rightarrow> (request list) env" where
  "slow resp = (answering resp)\<lparr>timeout_first := (\<lambda>w. True)\<rparr>"

definition resp200 :: response where
  \<open>resp200 =
     \<lparr>StatusCode = 200, Status = ''200 OK'', Body = Inr ''{"state":{"children":{}}}''\<rparr>\<close>

definition resp500 :: response where
  "resp500 = \<lparr>StatusCode = 500, Status = ''500 Internal Server Error'', Body = Inr []\<rparr>"

definition vm1 :: VM where
  "vm1 = \<lparr>VM.Platform = ''p1'', VM.App = ''org/app'', VM.Version = ''v1''\<rparr>"

definition goal1 :: DeploymentGoal where
  "goal1 = \<lparr>DeploymentGoal.children = DAList.update ''a1'' vm1 DAList.empty\<rparr>"

definition status1 :: InstanceStatus where
  "status1 =
     \<lparr>Deployer = ''d'', InstanceStatus.App = ''org/app'', InstanceStatus.Version = ''v1'',
      Hostname = ''h'', IP = ''1.2.3.4'', URLs = [''http://h'']\<rparr>"

definition client1 :: Client where
  "client1 = \<lparr>jwt = ''token'', domain = ''https://vms.example''\<rparr>"

text \<open>
  One Pool (org, web): \<^verbatim>\<open>a1\<close> is in its Goal State only, \<^verbatim>\<open>b2\<close> in its Observed State
  only, with a parsed status, and \<^verbatim>\<open>z9\<close> in its Observed State only, with a status whose
  fields are all empty (the remote document had \<^verbatim>\<open>"vm":{}\<close> for it).
\<close>

definition pool1 :: Pool where
  "pool1 =
     \<lparr>org = ''org'', name = ''web'', goal = Some 0,
      state = Some \<lparr>DeploymentState.children =
                     DAList.update ''z9'' zeroStatus (DAList.update ''b2'' status1 DAList.empty)\<rparr>\<rparr>"

definition sys1 :: "(request list) sys" where
  "sys1 =
     \<lparr>closed = False, client = client1,
      pools = DAList.update ''org::web'' 0 DAList.empty,
      pool_heap = [pool1], goal_heap = [goal1], remote = []\<rparr>"

text \<open>
  Three Pools, (org, web), (org, db) and (org, cache), registered in one Manager whose
  registry lists them in the order db, web, cache.
\<close>

definition pool2 :: Pool where
  "pool2 =
     \<lparr>org = ''org'', name = ''db'', goal = Some 1,
      state = Some \<lparr>DeploymentState.children = DAList.empty\<rparr>\<rparr>"

definition pool3 :: Pool where
  "pool3 =
     \<lparr>org = ''org'', name = ''cache'', goal = Some 2,
      state = Some \<lparr>DeploymentState.children = DAList.empty\<rparr>\<rparr>"

definition sys2 :: "(request list) sys" where
  "sys2 =
     \<lparr>closed = False, client = client1,
      pools = DAList.update ''org::cache'' 2
                (DAList.update ''org::web'' 0 (DAList.update ''org::db'' 1 DAList.empty)),
      pool_heap = [pool1, pool2, pool3],
      goal_heap = [goal1, \<lparr>DeploymentGoal.children = DAList.empty\<rparr>,
                   \<lparr>DeploymentGoal.children = DAList.empty\<rparr>],
      remote = []\<rparr>"

text \<open>A remote side on which only the deployment (org, db) can be deleted.\<close>

definition onlyDb :: "request \<Rightarrow> response" where
  "onlyDb r =
     (if URL r = ''https://vms.example/deployments/api/v3/orgs/org/deployments/db''
      then resp200 else resp500)"

definition args1 :: SpawnArgs where
  "args1 = \<lparr>SpawnArgs.Platform = ''p1'', SpawnArgs.App = ''org/app'', SpawnArgs.Version = ''v2''\<rparr>"

section \<open>Evaluation\<close>

lemmas encode_defs =
  DeploymentGoal_MarshalJSON_def json_Marshal_children_def VM_MarshalJSON_def
  json_Marshal_ifacemap_def encodeMap_def encodeString_def encodeByte_def
  dquote_def backslash_def DAList.update.rep_eq DAList.empty.rep_eq

lemmas da_eval =
  DAList.alist_eq_iff DAList.update.rep_eq DAList.delete.rep_eq DAList.empty.rep_eq
  DAList.lookup.rep_eq

lemmas sys_eval =
  sys1_def sys2_def pool1_def pool2_def pool3_def goal1_def vm1_def client1_def
  answering_def answeringBy_def slow_def resp200_def resp500_def args1_def onlyDb_def
  status1_def decodeBody_def

lemmas http_eval =
  Push_def CreateDeployment_def DeleteDeployment_def GetDeployment_def
  http_NewRequest_def Client_Do_def Client_URL_def deployment_URL_def

section \<open>The goal document\<close>

text \<open>
  C7, as the specification states it: the Goal State whose only entry maps \<^verbatim>\<open>a1\<close> to
  the specification (p1, org/app, v1) is encoded as the document whose inner object
  lists \<^verbatim>\<open>platform\<close>, \<^verbatim>\<open>app\<close>, \<^verbatim>\<open>type\<close>, \<^verbatim>\<open>version\<close>, \<^verbatim>\<open>customization\<close> in that order.
  The encoder does not produce that text: the inner object is a Go map, and the
  library writes the keys of a map in sorted order.
\<close>

theorem C7_spec_document_counterexample:
  \<open>DeploymentGoal_MarshalJSON goal1 \<noteq>
     Inr ''{"type":"subtree","children":{"a1":{"platform":"p1","app":"org/app","type":"vm","version":"v1","customization":null}}}''\<close>
  by (simp add: goal1_def vm1_def encode_defs)

text \<open>
  C7, amended: the same Goal State is encoded as exactly the document below. It has the
  fields of the specification's document with the same values, \<^verbatim>\<open>"type":"vm"\<close> and
  \<^verbatim>\<open>"customization":null\<close> supplied by the encoder, and the keys of the inner object in
  sorted order.
\<close>

theorem C7_goal_document:
  \<open>DeploymentGoal_MarshalJSON goal1 =
     Inr ''{"type":"subtree","children":{"a1":{"app":"org/app","customization":null,"platform":"p1","type":"vm","version":"v1"}}}''\<close>
  by (simp add: goal1_def vm1_def encode_defs)

section \<open>Copies of a goal\<close>

lemma update_fresh_append:
  "k \<notin> fst ` set acc \<Longrightarrow> AList.update k v acc = acc @ [(k, v)]"
  by (induction acc) auto

lemma fold_update_append:
  "distinct (map fst (acc @ xs)) \<Longrightarrow>
   fold (\<lambda>(k, v) n. AList.update k v n) xs acc = acc @ xs"
proof (induction xs arbitrary: acc)
  case Nil
  then show ?case by simp
next
  case (Cons x xs)
  obtain k v where x: "x = (k, v)" by (cases x)
  from Cons.prems x have fresh: "k \<notin> fst ` set acc" by auto
  from Cons.prems x have d: "distinct (map fst ((acc @ [(k, v)]) @ xs))" by simp
  show ?case
    using Cons.IH [OF d] by (simp add: x update_fresh_append [OF fresh])
qed

lemma impl_of_fold_update:
  "DAList.impl_of (fold (\<lambda>(k, v) n. DAList.update k v n) xs a) =
   fold (\<lambda>(k, v) n. AList.update k v n) xs (DAList.impl_of a)"
  by (induction xs arbitrary: a) (auto simp: DAList.update.rep_eq)

text \<open>The loop of \<^verbatim>\<open>Copy\<close> rebuilds the map it reads.\<close>

lemma copy_map_same:
  "fold (\<lambda>(k, v) n. DAList.update k v n) (DAList.impl_of m) DAList.empty = m"
proof -
  have "DAList.impl_of (fold (\<lambda>(k, v) n. DAList.update k v n) (DAList.impl_of m) DAList.empty)
        = DAList.impl_of m"
    using fold_update_append [of "[]" "DAList.impl_of m"]
    by (simp add: impl_of_fold_update DAList.empty.rep_eq)
  then show ?thesis by (simp add: DAList.impl_of_inject)
qed

text \<open>A write through one pointer leaves every other object of the heap as it was.\<close>

lemma Attach_other:
  "n < length h \<Longrightarrow> \<exists>h'. Attach h (Some n) k vm = Some h' \<and> length h' = length h \<and>
      (\<forall>i. i \<noteq> n \<longrightarrow> h' ! i = h ! i)"
  by (simp add: Attach_def deref_def)

lemma Detach_other:
  "n < length h \<Longrightarrow> \<exists>h'. Detach h (Some n) k = Some h' \<and> length h' = length h \<and>
      (\<forall>i. i \<noteq> n \<longrightarrow> h' ! i = h ! i)"
  by (simp add: Detach_def deref_def)

lemma applyOps_other:
  "n < length h \<Longrightarrow> \<exists>h'. applyOps h (Some n) ops = Some h' \<and> length h' = length h \<and>
      (\<forall>i. i \<noteq> n \<longrightarrow> h' ! i = h ! i)"
proof (induction ops arbitrary: h)
  case Nil
  then show ?case by simp
next
  case (Cons op ops)
  show ?case
  proof (cases op)
    case (OpAttach k vm)
    from Attach_other [OF Cons.prems, of k vm] obtain h1 where
      h1: "Attach h (Some n) k vm = Some h1" "length h1 = length h"
          "\<forall>i. i \<noteq> n \<longrightarrow> h1 ! i = h ! i" by blast
    from Cons.IH [of h1] h1 Cons.prems show ?thesis by (auto simp: OpAttach)
  next
    case (OpDetach k)
    from Detach_other [OF Cons.prems, of k] obtain h1 where
      h1: "Detach h (Some n) k = Some h1" "length h1 = length h"
          "\<forall>i. i \<noteq> n \<longrightarrow> h1 ! i = h ! i" by blast
    from Cons.IH [of h1] h1 Cons.prems show ?thesis by (auto simp: OpDetach)
  qed
qed

text \<open>
  C6: for every goal object \<open>g\<close> of the heap, \<^verbatim>\<open>Copy\<close> returns a pointer \<open>n\<close> to another
  object, whose map has the entries of \<open>g\<close>; and whatever sequence of \<^verbatim>\<open>Attach\<close> and
  \<^verbatim>\<open>Detach\<close> calls is then made on \<open>n\<close>, every call succeeds and the object \<open>g\<close> is
  afterwards what it was before the copy.
\<close>

theorem C6_copy_independent:
  assumes "g < length h"
  shows "\<exists>n h1. Copy h (Some g) = Some (n, h1) \<and> n \<noteq> g \<and>
           DAList.lookup (DeploymentGoal.children (h1 ! n)) =
             DAList.lookup (DeploymentGoal.children (h ! g)) \<and>
           (\<forall>ops. \<exists>h2. applyOps h1 (Some n) ops = Some h2 \<and> h2 ! g = h ! g)"
proof -
  let ?c = "\<lparr>DeploymentGoal.children = DeploymentGoal.children (h ! g)\<rparr>"
  have c: "Copy h (Some g) = Some (length h, h @ [?c])"
    using assms by (simp add: Copy_def deref_def copy_map_same)
  have "\<exists>h2. applyOps (h @ [?c]) (Some (length h)) ops = Some h2 \<and> h2 ! g = h ! g" for ops
  proof -
    from applyOps_other [of "length h" "h @ [?c]" ops] obtain h2 where
      "applyOps (h @ [?c]) (Some (length h)) ops = Some h2"
      "\<forall>i. i \<noteq> length h \<longrightarrow> h2 ! i = (h @ [?c]) ! i" by auto
    with assms show ?thesis by (auto simp: nth_append)
  qed
  with c assms show ?thesis by (simp add: nth_append)
qed

text \<open>
  On the heap that holds the one goal \<open>goal1\<close>: the copy is object 1, and detaching
  \<^verbatim>\<open>a1\<close> from the copy and attaching \<^verbatim>\<open>c3\<close> to it leaves object 0 as it was.
\<close>

theorem C6_copy_independent_witness:
  "(0::nat) < length [goal1] \<and>
   (\<exists>n h1. Copy [goal1] (Some 0) = Some (n, h1) \<and> n \<noteq> 0 \<and>
      DAList.lookup (DeploymentGoal.children (h1 ! n)) =
        DAList.lookup (DeploymentGoal.children ([goal1] ! 0)) \<and>
      (\<forall>ops. \<exists>h2. applyOps h1 (Some n) ops = Some h2 \<and> h2 ! 0 = [goal1] ! 0)) \<and>
   Copy [goal1] (Some 0) = Some (1, [goal1, goal1]) \<and>
   applyOps [goal1, goal1] (Some 1) [OpDetach ''a1'', OpAttach ''c3'' vm1] =
     Some [goal1, \<lparr>DeploymentGoal.children = DAList.update ''c3'' vm1 DAList.empty\<rparr>]"
  using C6_copy_independent [of 0 "[goal1]"]
  by (simp add: Copy_def deref_def copy_map_same Attach_def Detach_def goal1_def da_eval)

section \<open>Status\<close>

text \<open>
  C1, as the specification states it, fails on two kinds of Pool. The Observed State of
  the Pool of \<open>sys1\<close> holds, for \<^verbatim>\<open>z9\<close>, a parsed status whose fields are all empty:
  \<^verbatim>\<open>Status\<close> returns the empty status for \<^verbatim>\<open>z9\<close>, which is not in the Goal State at all.
  And once that Pool has been closed, \<^verbatim>\<open>a1\<close> is in neither state, yet \<^verbatim>\<open>Status\<close> does not
  fail with \<^verbatim>\<open>ErrInstanceNotInPool\<close>: it reads through the nil state.
\<close>

theorem C1_status_counterexample:
  "live sys1 0 \<and>
   Status sys1 0 ''z9'' = Inr zeroStatus \<and>
   goalEntry sys1 0 ''z9'' = None \<and>
   observed sys1 0 ''z9'' = Some zeroStatus \<and>
   fst (Pool_Close (answering resp200) sys1 0) = None \<and>
   goalEntry (snd (Pool_Close (answering resp200) sys1 0)) 0 ''a1'' = None \<and>
   observed (snd (Pool_Close (answering resp200) sys1 0)) 0 ''a1'' = None \<and>
   Status (snd (Pool_Close (answering resp200) sys1 0)) 0 ''a1'' = Inl NilDereference"
  by (simp add: Status_def goalEntry_def observed_def live_def Pool_Close_def deref_def
        sys_eval http_eval da_eval)

text \<open>
  C1, amended: for every live Pool (one that holds its Goal State and its Observed
  State) and every identifier, \<^verbatim>\<open>Status\<close> fails with \<^verbatim>\<open>ErrInstanceNotInPool\<close> iff the
  identifier is in neither state; it returns the status stored in the Observed State iff
  the identifier is in the Observed State; and it returns the empty status iff the
  identifier is in the Goal State only or the status stored for it in the Observed State
  is itself empty.
\<close>

theorem C1_status:
  assumes "live s p"
  shows "(Status s p ident = Inl ErrInstanceNotInPool \<longleftrightarrow>
            goalEntry s p ident = None \<and> observed s p ident = None) \<and>
         ((\<exists>v. observed s p ident = Some v \<and> Status s p ident = Inr v) \<longleftrightarrow>
            observed s p ident \<noteq> None) \<and>
         (Status s p ident = Inr zeroStatus \<longleftrightarrow>
            (goalEntry s p ident \<noteq> None \<and> observed s p ident = None) \<or>
            observed s p ident = Some zeroStatus)"
  using assms
  by (auto simp: live_def Status_def goalEntry_def observed_def split: option.splits)

text \<open>
  In \<open>sys1\<close>: \<^verbatim>\<open>a1\<close> is in the Goal State only, \<^verbatim>\<open>b2\<close> in the Observed State, \<^verbatim>\<open>c3\<close> in
  neither.
\<close>

theorem C1_status_witness:
  "live sys1 0 \<and>
   goalEntry sys1 0 ''a1'' = Some vm1 \<and> observed sys1 0 ''a1'' = None \<and>
   Status sys1 0 ''a1'' = Inr zeroStatus \<and>
   observed sys1 0 ''b2'' = Some status1 \<and> Status sys1 0 ''b2'' = Inr status1 \<and>
   goalEntry sys1 0 ''c3'' = None \<and> observed sys1 0 ''c3'' = None \<and>
   Status sys1 0 ''c3'' = Inl ErrInstanceNotInPool"
  using C1_status [of sys1 0 "''a1''"] C1_status [of sys1 0 "''b2''"]
    C1_status [of sys1 0 "''c3''"]
  by (simp add: Status_def goalEntry_def observed_def live_def deref_def sys_eval da_eval
        zeroStatus_def)

section \<open>Spawn\<close>

lemma spawned_lookup:
  "DAList.lookup (DeploymentGoal.children (spawned g src args)) =
   (DAList.lookup (DeploymentGoal.children g))
     (hex_EncodeToString src \<mapsto>
        \<lparr>VM.Platform = SpawnArgs.Platform args, VM.App = SpawnArgs.App args,
         VM.Version = SpawnArgs.Version args\<rparr>)"
  by (auto simp: spawned_def DAList.lookup_update)

text \<open>
  C2: take a Pool \<open>p\<close> of an open Manager, holding the goal object \<open>g\<close>. \<^verbatim>\<open>Spawn\<close> pushes
  the object \<open>spawned\<close>. When that push fails with \<open>e\<close>, \<^verbatim>\<open>Spawn\<close> returns \<open>e\<close>, no Pool has
  changed, \<open>p\<close> still holds the pointer \<open>g\<close>, and the object \<open>g\<close> has its old entries. When
  the push succeeds, \<^verbatim>\<open>Spawn\<close> returns the identifier (the hex text of the random bytes)
  and \<open>p\<close> holds the new object, whose entries are the old ones and the new one; the old
  object is still what it was.
\<close>

theorem C2_spawn:
  assumes "p < length (pool_heap s)" and "\<not> closed s"
    and "goal (pool_heap s ! p) = Some g" and "g < length (goal_heap s)"
  shows "case Push env (client s) (spawned (goal_heap s ! g) src args)
                (org (pool_heap s ! p)) (name (pool_heap s ! p)) (remote s) of
           (Some e, w') \<Rightarrow>
             fst (Spawn env src s p args) = Inl e \<and>
             pool_heap (snd (Spawn env src s p args)) = pool_heap s \<and>
             goal (pool_heap (snd (Spawn env src s p args)) ! p) = Some g \<and>
             goal_heap (snd (Spawn env src s p args)) ! g = goal_heap s ! g
         | (None, w') \<Rightarrow>
             fst (Spawn env src s p args) = Inr (hex_EncodeToString src) \<and>
             goal (pool_heap (snd (Spawn env src s p args)) ! p) = Some (length (goal_heap s)) \<and>
             DAList.lookup (DeploymentGoal.children
                 (goal_heap (snd (Spawn env src s p args)) ! length (goal_heap s))) =
               (DAList.lookup (DeploymentGoal.children (goal_heap s ! g)))
                 (hex_EncodeToString src \<mapsto>
                    \<lparr>VM.Platform = SpawnArgs.Platform args, VM.App = SpawnArgs.App args,
                     VM.Version = SpawnArgs.Version args\<rparr>) \<and>
             goal_heap (snd (Spawn env src s p args)) ! g = goal_heap s ! g"
proof -
  let ?g' = "spawned (goal_heap s ! g) src args"
  have sp: "Spawn env src s p args =
      (case Push env (client s) ?g' (org (pool_heap s ! p)) (name (pool_heap s ! p)) (remote s) of
         (Some e, w') \<Rightarrow> (Inl e, s\<lparr>goal_heap := goal_heap s @ [?g'], remote := w'\<rparr>)
       | (None, w') \<Rightarrow>
           (Inr (hex_EncodeToString src),
            s\<lparr>goal_heap := goal_heap s @ [?g'], remote := w',
              pool_heap := (pool_heap s)[p := (pool_heap s ! p)\<lparr>goal := Some (length (goal_heap s))\<rparr>]\<rparr>))"
    using assms unfolding spawned_def
    by (simp add: Spawn_def Let_def Copy_def Attach_def deref_def copy_map_same)
  show ?thesis
    unfolding sp using assms
    by (simp add: nth_append spawned_lookup split: prod.splits option.splits)
qed

text \<open>
  On \<open>sys1\<close>, with the random bytes de ad be ef: against a remote side that answers 500
  the Pool keeps goal object 0 with its entry \<^verbatim>\<open>a1\<close>; against one that answers 200 the
  Pool holds the new object 1 with \<^verbatim>\<open>a1\<close> and \<^verbatim>\<open>deadbeef\<close>.
\<close>

theorem C2_spawn_witness:
  "(0::nat) < length (pool_heap sys1) \<and> \<not> closed sys1 \<and>
   goal (pool_heap sys1 ! 0) = Some 0 \<and> (0::nat) < length (goal_heap sys1) \<and>
   fst (Spawn (answering resp500) [0xDE, 0xAD, 0xBE, 0xEF] sys1 0 args1) =
     Inl (ErrorsNew ''500 Internal Server Error'') \<and>
   goal (pool_heap (snd (Spawn (answering resp500) [0xDE, 0xAD, 0xBE, 0xEF] sys1 0 args1)) ! 0) =
     Some 0 \<and>
   goal_heap (snd (Spawn (answering resp500) [0xDE, 0xAD, 0xBE, 0xEF] sys1 0 args1)) ! 0 = goal1 \<and>
   fst (Spawn (answering resp200) [0xDE, 0xAD, 0xBE, 0xEF] sys1 0 args1) = Inr ''deadbeef'' \<and>
   goal (pool_heap (snd (Spawn (answering resp200) [0xDE, 0xAD, 0xBE, 0xEF] sys1 0 args1)) ! 0) =
     Some 1 \<and>
   goalEntry (snd (Spawn (answering resp200) [0xDE, 0xAD, 0xBE, 0xEF] sys1 0 args1)) 0 ''a1'' =
     Some vm1 \<and>
   goalEntry (snd (Spawn (answering resp200) [0xDE, 0xAD, 0xBE, 0xEF] sys1 0 args1)) 0
       ''deadbeef'' =
     Some \<lparr>VM.Platform = ''p1'', VM.App = ''org/app'', VM.Version = ''v2''\<rparr>"
  using C2_spawn [of 0 sys1 0 "answering resp500" "[0xDE, 0xAD, 0xBE, 0xEF]" args1]
    C2_spawn [of 0 sys1 0 "answering resp200" "[0xDE, 0xAD, 0xBE, 0xEF]" args1]
  by (simp add: Spawn_def Let_def Copy_def Attach_def deref_def copy_map_same goalEntry_def
        hex_EncodeToString_def hexByte_def hextable_def spawned_def
        sys_eval http_eval encode_defs da_eval)

section \<open>Destroy\<close>

text \<open>
  C3 says that \<^verbatim>\<open>Destroy\<close> returns the result of the push. On \<open>sys1\<close>, against a remote
  side that answers 500, the push of the goal without \<^verbatim>\<open>a1\<close> fails with the status text,
  and \<^verbatim>\<open>Destroy\<close> returns nil: the value of \<^verbatim>\<open>Push\<close> is dropped.
\<close>

theorem C3_destroy_drops_push_error:
  "\<not> closed sys1 \<and>
   fst (Push (answering resp500) (client sys1)
          \<lparr>DeploymentGoal.children = DAList.delete ''a1'' (DeploymentGoal.children goal1)\<rparr>
          ''org'' ''web'' (remote sys1)) = Some (ErrorsNew ''500 Internal Server Error'') \<and>
   fst (Destroy (answering resp500) sys1 0 ''a1'') = None"
  by (simp add: Destroy_def Detach_def deref_def sys_eval http_eval encode_defs da_eval)

text \<open>
  C4: for every Pool \<open>p\<close> of an open Manager that holds a goal object \<open>g\<close>, every
  identifier and every remote side (so whether the push succeeds or fails), \<^verbatim>\<open>Destroy\<close>
  returns without a panic, \<open>p\<close> still holds \<open>g\<close>, and \<open>g\<close> has no entry for the identifier
  any more.
\<close>

theorem C4_destroy_detaches:
  assumes "p < length (pool_heap s)" and "\<not> closed s"
    and "goal (pool_heap s ! p) = Some g" and "g < length (goal_heap s)"
  shows "fst (Destroy env s p ident) \<noteq> Some NilDereference \<and>
         goal (pool_heap (snd (Destroy env s p ident)) ! p) = Some g \<and>
         DAList.lookup
           (DeploymentGoal.children (goal_heap (snd (Destroy env s p ident)) ! g)) ident = None \<and>
         goalEntry (snd (Destroy env s p ident)) p ident = None"
  using assms
  by (simp add: Destroy_def Detach_def deref_def goalEntry_def split: prod.splits)

text \<open>
  On \<open>sys1\<close>, whose goal holds \<^verbatim>\<open>a1\<close>: after \<^verbatim>\<open>Destroy\<close> the entry is gone, against a
  remote side that answers 500 (the push fails) as against one that answers 200.
\<close>

theorem C4_destroy_detaches_witness:
  "(0::nat) < length (pool_heap sys1) \<and> \<not> closed sys1 \<and>
   goal (pool_heap sys1 ! 0) = Some 0 \<and> (0::nat) < length (goal_heap sys1) \<and>
   goalEntry sys1 0 ''a1'' = Some vm1 \<and>
   fst (Push (answering resp500) (client sys1)
          \<lparr>DeploymentGoal.children = DAList.delete ''a1'' (DeploymentGoal.children goal1)\<rparr>
          ''org'' ''web'' (remote sys1)) = Some (ErrorsNew ''500 Internal Server Error'') \<and>
   goalEntry (snd (Destroy (answering resp500) sys1 0 ''a1'')) 0 ''a1'' = None \<and>
   fst (Push (answering resp200) (client sys1)
          \<lparr>DeploymentGoal.children = DAList.delete ''a1'' (DeploymentGoal.children goal1)\<rparr>
          ''org'' ''web'' (remote sys1)) = None \<and>
   goalEntry (snd (Destroy (answering resp200) sys1 0 ''a1'')) 0 ''a1'' = None"
  using C4_destroy_detaches [of 0 sys1 0 "answering resp500" "''a1''"]
    C4_destroy_detaches [of 0 sys1 0 "answering resp200" "''a1''"]
  by (simp add: goalEntry_def deref_def sys_eval http_eval encode_defs da_eval)

section \<open>Update\<close>

text \<open>
  C5: for every Pool of an open Manager, when the \<^verbatim>\<open>select\<close> of \<^verbatim>\<open>Update\<close> takes the
  timer, \<^verbatim>\<open>Update\<close> returns the error \<^verbatim>\<open>cleanup timed out\<close> and no Pool has changed: the
  Observed State of the Pool is the object it was before the call.
\<close>

theorem C5_update_timeout:
  assumes "p < length (pool_heap s)" and "\<not> closed s" and "timeout_first env (remote s)"
  shows "fst (Update env s p) = Some (ErrorsNew ''cleanup timed out'') \<and>
         pool_heap (snd (Update env s p)) = pool_heap s \<and>
         state (pool_heap (snd (Update env s p)) ! p) = state (pool_heap s ! p) \<and>
         observed (snd (Update env s p)) p = observed s p"
  using assms
  by (auto simp: Update_def deref_def observed_def split: prod.splits)

text \<open>
  On \<open>sys1\<close>: against the slow remote side the status of \<^verbatim>\<open>b2\<close> stays; against the one
  that answers in time, \<^verbatim>\<open>Update\<close> succeeds and replaces the Observed State (here by an
  empty one).
\<close>

theorem C5_update_timeout_witness:
  "(0::nat) < length (pool_heap sys1) \<and> \<not> closed sys1 \<and>
   timeout_first (slow resp200) (remote sys1) \<and>
   fst (Update (slow resp200) sys1 0) = Some (ErrorsNew ''cleanup timed out'') \<and>
   pool_heap (snd (Update (slow resp200) sys1 0)) = pool_heap sys1 \<and>
   observed (snd (Update (slow resp200) sys1 0)) 0 ''b2'' = Some status1 \<and>
   fst (Update (answering resp200) sys1 0) = None \<and>
   observed (snd (Update (answering resp200) sys1 0)) 0 ''b2'' = None"
  using C5_update_timeout [of 0 sys1 "slow resp200"]
  by (simp add: Update_def observed_def deref_def sys_eval http_eval da_eval)

section \<open>Close\<close>

text \<open>
  C10: when \<^verbatim>\<open>Pool.Close\<close> succeeds, the Pool holds nil for its Goal State and for its
  Observed State, and \<^verbatim>\<open>Status\<close> (for any identifier) and \<^verbatim>\<open>Instances\<close> on that Pool
  panic on the nil pointer: they return neither \<^verbatim>\<open>ErrManagerClosed\<close> nor
  \<^verbatim>\<open>ErrInstanceNotInPool\<close>, nor a value.
\<close>

theorem C10_closed_pool_faults:
  assumes "fst (Pool_Close env s p) = None"
  shows "p < length (pool_heap (snd (Pool_Close env s p))) \<and>
         goal (pool_heap (snd (Pool_Close env s p)) ! p) = None \<and>
         state (pool_heap (snd (Pool_Close env s p)) ! p) = None \<and>
         Status (snd (Pool_Close env s p)) p ident = Inl NilDereference \<and>
         Instances (snd (Pool_Close env s p)) p = Inl NilDereference"
  using assms
  by (auto simp: Pool_Close_def Status_def Instances_def deref_def
           split: option.splits prod.splits if_splits)

text \<open>
  On \<open>sys1\<close>, before and after its Pool is closed against a remote side that answers 200.
\<close>

theorem C10_closed_pool_faults_witness:
  "fst (Pool_Close (answering resp200) sys1 0) = None \<and>
   Status sys1 0 ''a1'' = Inr zeroStatus \<and>
   Instances sys1 0 = Inr [''a1''] \<and>
   Status (snd (Pool_Close (answering resp200) sys1 0)) 0 ''a1'' = Inl NilDereference \<and>
   Instances (snd (Pool_Close (answering resp200) sys1 0)) 0 = Inl NilDereference"
  using C10_closed_pool_faults [of "answering resp200" sys1 0 "''a1''"]
  by (simp add: Pool_Close_def Status_def Instances_def deref_def sys_eval http_eval da_eval)

section \<open>The Manager\<close>

text \<open>
  What \<^verbatim>\<open>Pool.Close\<close> writes: nothing on the heap of goals; on the heap of Pools only
  the two state fields of its own Pool, and only when it succeeds; in the registry only
  the entry under the key of its own Pool, and only when it succeeds.
\<close>

lemma Pool_Close_frame:
  assumes "Pool_Close env s p = (r, s')"
  shows "goal_heap s' = goal_heap s"
    and "length (pool_heap s') = length (pool_heap s)"
    and "q \<noteq> p \<Longrightarrow> pool_heap s' ! q = pool_heap s ! q"
    and "key (pool_heap s' ! a) = key (pool_heap s ! a)"
  using assms
  by (auto simp: Pool_Close_def deref_def key_def nth_list_update
           split: option.splits prod.splits if_splits)

lemma Pool_Close_failed:
  assumes "Pool_Close env s p = (Some e, s')"
  shows "pool_heap s' = pool_heap s" and "pools s' = pools s"
  using assms
  by (auto simp: Pool_Close_def deref_def split: option.splits prod.splits if_splits)

lemma Pool_Close_succeeded:
  assumes "Pool_Close env s p = (None, s')"
  shows "pools s' = DAList.delete (key (pool_heap s ! p)) (pools s)"
  using assms
  by (auto simp: Pool_Close_def deref_def split: option.splits prod.splits if_splits)

lemma closeList_frame:
  assumes "closeList env s ps = (None, s')"
  shows "goal_heap s' = goal_heap s \<and>
         length (pool_heap s') = length (pool_heap s) \<and>
         (\<forall>q. q \<notin> set ps \<longrightarrow> pool_heap s' ! q = pool_heap s ! q) \<and>
         (\<forall>a. key (pool_heap s' ! a) = key (pool_heap s ! a)) \<and>
         (\<forall>k. k \<notin> (\<lambda>a. key (pool_heap s ! a)) ` set ps \<longrightarrow>
              DAList.lookup (pools s') k = DAList.lookup (pools s) k)"
  using assms
proof (induction ps arbitrary: s)
  case Nil
  then show ?case by simp
next
  case (Cons a ps)
  from Cons.prems obtain s1 where
    a: "Pool_Close env s a = (None, s1)" and rest: "closeList env s1 ps = (None, s')"
    by (auto split: prod.splits option.splits)
  note f = Pool_Close_frame [OF a] Pool_Close_succeeded [OF a]
  note ih = Cons.IH [OF rest]
  have "DAList.lookup (pools s') k = DAList.lookup (pools s) k"
    if "k \<notin> (\<lambda>b. key (pool_heap s ! b)) ` set (a # ps)" for k
  proof -
    from that have "k \<noteq> key (pool_heap s ! a)"
      and "k \<notin> (\<lambda>b. key (pool_heap s1 ! b)) ` set ps"
      by (auto simp: f(4))
    with ih f(5) show ?thesis by simp
  qed
  moreover have "pool_heap s' ! q = pool_heap s ! q" if "q \<notin> set (a # ps)" for q
    using that ih f(3) [of q] by auto
  moreover have "key (pool_heap s' ! b) = key (pool_heap s ! b)" for b
    using ih f(4) [of b] by simp
  ultimately show ?case using ih f(1,2) by simp
qed

lemma closeList_append:
  "closeList env s (ps @ rest) =
     (case closeList env s ps of
        (Some e, s1) \<Rightarrow> (Some e, s1)
      | (None, s1) \<Rightarrow> closeList env s1 rest)"
  by (induction ps arbitrary: s) (auto split: prod.splits option.splits)

text \<open>
  C8, as the specification states it, says that \<^verbatim>\<open>Manager.Close\<close> still attempts to close
  the remaining Pools after one has failed. In \<open>sys2\<close> the snapshot lists the Pools db,
  web, cache (objects 1, 0, 2); against a remote side that answers 500 to everything,
  \<^verbatim>\<open>Manager.Close\<close> returns the error of db, and the only request the remote side has
  received is the delete of db: web and cache were not attempted, and are still live and
  registered.
\<close>

theorem C8_close_all_counterexample:
  "snapshot (answering resp500) (sys2\<lparr>closed := True\<rparr>) = [1, 0, 2] \<and>
   fst (Manager_Close (answering resp500) sys2) = Some (ErrorsNew ''500 Internal Server Error'') \<and>
   map (\<lambda>r. (Method r, URL r)) (remote (snd (Manager_Close (answering resp500) sys2))) =
     [(''DELETE'', ''https://vms.example/deployments/api/v3/orgs/org/deployments/db'')] \<and>
   live (snd (Manager_Close (answering resp500) sys2)) 0 \<and>
   live (snd (Manager_Close (answering resp500) sys2)) 2 \<and>
   DAList.lookup (pools (snd (Manager_Close (answering resp500) sys2))) ''org::web'' = Some 0 \<and>
   DAList.lookup (pools (snd (Manager_Close (answering resp500) sys2))) ''org::cache'' = Some 2"
  by (simp add: Manager_Close_def snapshot_def Pool_Close_def live_def deref_def
        sys_eval http_eval da_eval)

text \<open>
  C8, amended: \<^verbatim>\<open>Manager.Close\<close> sets the flag, takes the snapshot of the registered
  Pools before it iterates, and closes them in the order of the snapshot; when the Pools
  \<open>ps\<close> close without error and closing the next Pool \<open>p\<close> fails with \<open>e\<close>,
  \<^verbatim>\<open>Manager.Close\<close> returns \<open>e\<close> at once, in the state that failed close has left: the
  Pools \<open>qs\<close> that follow in the snapshot are not attempted. In that state no goal object
  has changed; every Pool object other than those of \<open>ps\<close> is what it was before the
  call, so that it is live iff it was; and the registry holds what it held under every
  key that is not the key of a Pool of \<open>ps\<close>.
\<close>

theorem C8_close_stops_at_first_error:
  assumes "snapshot env (s\<lparr>closed := True\<rparr>) = ps @ p # qs"
    and "closeList env (s\<lparr>closed := True\<rparr>) ps = (None, s1)"
    and "Pool_Close env s1 p = (Some e, s2)"
  shows "Manager_Close env s = (Some e, s2) \<and>
         goal_heap s2 = goal_heap s \<and>
         (\<forall>q. q \<notin> set ps \<longrightarrow>
              deref (pool_heap s2) (Some q) = deref (pool_heap s) (Some q)) \<and>
         (\<forall>q. q \<notin> set ps \<longrightarrow> live s2 q = live s q) \<and>
         (\<forall>k. k \<notin> (\<lambda>a. key (pool_heap s ! a)) ` set ps \<longrightarrow>
              DAList.lookup (pools s2) k = DAList.lookup (pools s) k)"
proof -
  have res: "Manager_Close env s = (Some e, s2)"
    using assms by (simp add: Manager_Close_def Let_def closeList_append)
  note f1 = closeList_frame [OF assms(2)]
  note f2 = Pool_Close_frame(1) [OF assms(3)] Pool_Close_failed [OF assms(3)]
  have g: "goal_heap s2 = goal_heap s"
    using f1 f2 by simp
  have len: "length (pool_heap s2) = length (pool_heap s)"
    using f1 f2 by simp
  have obj: "pool_heap s2 ! q = pool_heap s ! q" if "q \<notin> set ps" for q
    using that f1 f2 by simp
  have d: "deref (pool_heap s2) (Some q) = deref (pool_heap s) (Some q)" if "q \<notin> set ps" for q
    using obj [OF that] len by (simp add: deref_def)
  have l: "live s2 q = live s q" if "q \<notin> set ps" for q
    using d [OF that] g by (simp add: live_def split: option.splits)
  have reg: "DAList.lookup (pools s2) k = DAList.lookup (pools s) k"
    if "k \<notin> (\<lambda>a. key (pool_heap s ! a)) ` set ps" for k
    using that f1 f2 by simp
  from res g d l reg show ?thesis by blast
qed

text \<open>
  On \<open>sys2\<close>, against the remote side on which only db can be deleted: db is closed and
  leaves the registry, web fails, and cache, which follows web in the snapshot, is not
  attempted: web and cache are live and registered as before.
\<close>

theorem C8_close_stops_at_first_error_witness:
  "snapshot (answeringBy onlyDb) (sys2\<lparr>closed := True\<rparr>) = [1] @ 0 # [2] \<and>
   closeList (answeringBy onlyDb) (sys2\<lparr>closed := True\<rparr>) [1] =
     (None, snd (closeList (answeringBy onlyDb) (sys2\<lparr>closed := True\<rparr>) [1])) \<and>
   Pool_Close (answeringBy onlyDb)
       (snd (closeList (answeringBy onlyDb) (sys2\<lparr>closed := True\<rparr>) [1])) 0 =
     (Some (ErrorsNew ''500 Internal Server Error''),
      snd (Pool_Close (answeringBy onlyDb)
             (snd (closeList (answeringBy onlyDb) (sys2\<lparr>closed := True\<rparr>) [1])) 0)) \<and>
   fst (Manager_Close (answeringBy onlyDb) sys2) = Some (ErrorsNew ''500 Internal Server Error'') \<and>
   map (\<lambda>r. (Method r, URL r)) (remote (snd (Manager_Close (answeringBy onlyDb) sys2))) =
     [(''DELETE'', ''https://vms.example/deployments/api/v3/orgs/org/deployments/db''),
      (''DELETE'', ''https://vms.example/deployments/api/v3/orgs/org/deployments/web'')] \<and>
   live sys2 0 \<and> live sys2 1 \<and> live sys2 2 \<and>
   live (snd (Manager_Close (answeringBy onlyDb) sys2)) 0 \<and>
   live (snd (Manager_Close (answeringBy onlyDb) sys2)) 2 \<and>
   (live (snd (Manager_Close (answeringBy onlyDb) sys2)) 1 = False) \<and>
   DAList.lookup (pools (snd (Manager_Close (answeringBy onlyDb) sys2))) ''org::db'' = None \<and>
   DAList.lookup (pools (snd (Manager_Close (answeringBy onlyDb) sys2))) ''org::web'' = Some 0 \<and>
   DAList.lookup (pools (snd (Manager_Close (answeringBy onlyDb) sys2))) ''org::cache'' = Some 2"
  using C8_close_stops_at_first_error
    [of "answeringBy onlyDb" sys2 "[1]" 0 "[2]"
        "snd (closeList (answeringBy onlyDb) (sys2\<lparr>closed := True\<rparr>) [1])"
        "ErrorsNew ''500 Internal Server Error''"
        "snd (Pool_Close (answeringBy onlyDb)
               (snd (closeList (answeringBy onlyDb) (sys2\<lparr>closed := True\<rparr>) [1])) 0)"]
  by (simp add: Manager_Close_def snapshot_def Pool_Close_def live_def deref_def key_def
        sys_eval http_eval da_eval)

text \<open>
  C9, as stated, ends with: a later \<^verbatim>\<open>Manager.Close\<close> will attempt to close the Pool that
  a failed \<^verbatim>\<open>NewPool\<close> has left registered. On \<open>sys1\<close>, \<^verbatim>\<open>NewPool\<close> for (org, db) fails
  against a remote side that answers 500 and leaves the Pool registered as object 1;
  \<^verbatim>\<open>Manager.Close\<close> against the same remote side has the snapshot web, db, fails on web
  and returns: the remote side has received the create for db and the delete for web,
  and no delete for db, which is still live and registered.
\<close>

theorem C9_later_close_counterexample:
  "fst (NewPool (answering resp500) sys1 ''org'' ''db'') =
     Inl (ErrorsNew ''500 Internal Server Error'') \<and>
   DAList.lookup (pools (snd (NewPool (answering resp500) sys1 ''org'' ''db''))) ''org::db'' =
     Some 1 \<and>
   snapshot (answering resp500)
     ((snd (NewPool (answering resp500) sys1 ''org'' ''db''))\<lparr>closed := True\<rparr>) = [0, 1] \<and>
   fst (Manager_Close (answering resp500)
          (snd (NewPool (answering resp500) sys1 ''org'' ''db''))) =
     Some (ErrorsNew ''500 Internal Server Error'') \<and>
   map (\<lambda>r. (Method r, URL r))
     (remote (snd (Manager_Close (answering resp500)
                     (snd (NewPool (answering resp500) sys1 ''org'' ''db''))))) =
     [(''PUT'', ''https://vms.example/deployments/api/v3/orgs/org/deployments/db''),
      (''DELETE'', ''https://vms.example/deployments/api/v3/orgs/org/deployments/web'')] \<and>
   live (snd (Manager_Close (answering resp500)
                (snd (NewPool (answering resp500) sys1 ''org'' ''db'')))) 1 \<and>
   DAList.lookup
     (pools (snd (Manager_Close (answering resp500)
                    (snd (NewPool (answering resp500) sys1 ''org'' ''db''))))) ''org::db'' =
     Some 1"
  by (simp add: NewPool_def Let_def Manager_Close_def snapshot_def Pool_Close_def live_def
        deref_def key_def sys_eval http_eval da_eval)

text \<open>
  C9, amended: on an open Manager, when the remote create call of \<^verbatim>\<open>NewPool\<close> fails with
  \<open>e\<close>, \<^verbatim>\<open>NewPool\<close> returns \<open>e\<close>, and the new Pool object is in the registry under its key
  all the same: the entry was written before the call and is not taken back. As \<^verbatim>\<open>range\<close>
  visits every entry of the registry, that Pool is in the snapshot of a later
  \<^verbatim>\<open>Manager.Close\<close> (against any remote side \<open>env'\<close>), and \<^verbatim>\<open>Manager.Close\<close> runs
  \<^verbatim>\<open>Pool.Close\<close> on it provided the Pools before it in the snapshot close without error:
  its result is then the error of that close, or what the loop makes of the Pools after
  it.
\<close>

theorem C9_newpool_registered_on_failure:
  assumes "\<not> closed s"
    and "CreateDeployment env (client s) org' name' (remote s) = (Some e, w')"
    and "\<And>m. set (range_order env' m) = set (DAList.impl_of m)"
  shows "fst (NewPool env s org' name') = Inl e \<and>
         DAList.lookup (pools (snd (NewPool env s org' name'))) (org' @ ''::'' @ name') =
           Some (length (pool_heap s)) \<and>
         deref (pool_heap (snd (NewPool env s org' name'))) (Some (length (pool_heap s))) =
           Some \<lparr>org = org', name = name', goal = Some (length (goal_heap s)),
                 state = Some \<lparr>DeploymentState.children = DAList.empty\<rparr>\<rparr> \<and>
         length (pool_heap s) \<in>
           set (snapshot env' ((snd (NewPool env s org' name'))\<lparr>closed := True\<rparr>)) \<and>
         (\<exists>ps qs.
            snapshot env' ((snd (NewPool env s org' name'))\<lparr>closed := True\<rparr>) =
              ps @ length (pool_heap s) # qs \<and>
            (\<forall>s1. closeList env' ((snd (NewPool env s org' name'))\<lparr>closed := True\<rparr>) ps =
                    (None, s1) \<longrightarrow>
                  Manager_Close env' (snd (NewPool env s org' name')) =
                    (case Pool_Close env' s1 (length (pool_heap s)) of
                       (Some e', s2) \<Rightarrow> (Some e', s2)
                     | (None, s2) \<Rightarrow> closeList env' s2 qs)))"
proof -
  let ?pl = "\<lparr>org = org', name = name', goal = Some (length (goal_heap s)),
              state = Some \<lparr>DeploymentState.children = DAList.empty\<rparr>\<rparr>"
  let ?reg = "DAList.update (org' @ ''::'' @ name') (length (pool_heap s)) (pools s)"
  let ?s' = "snd (NewPool env s org' name')"
  have np: "NewPool env s org' name' =
      (Inl e, s\<lparr>goal_heap := goal_heap s @ [\<lparr>DeploymentGoal.children = DAList.empty\<rparr>],
                pool_heap := pool_heap s @ [?pl], pools := ?reg, remote := w'\<rparr>)"
    using assms(1,2) by (simp add: NewPool_def Let_def key_def)
  have "DAList.lookup ?reg (org' @ ''::'' @ name') = Some (length (pool_heap s))"
    by simp
  then have "(org' @ ''::'' @ name', length (pool_heap s)) \<in> set (DAList.impl_of ?reg)"
    by (simp only: DAList.lookup.rep_eq map_of_SomeD)
  then have "length (pool_heap s) \<in> snd ` set (range_order env' ?reg)"
    unfolding assms(3) by force
  then have mem: "length (pool_heap s) \<in> set (snapshot env' (?s'\<lparr>closed := True\<rparr>))"
    by (simp add: np snapshot_def)
  then obtain ps qs where
    split: "snapshot env' (?s'\<lparr>closed := True\<rparr>) = ps @ length (pool_heap s) # qs"
    by (meson split_list)
  have "Manager_Close env' ?s' =
          (case Pool_Close env' s1 (length (pool_heap s)) of
             (Some e', s2) \<Rightarrow> (Some e', s2)
           | (None, s2) \<Rightarrow> closeList env' s2 qs)"
    if "closeList env' (?s'\<lparr>closed := True\<rparr>) ps = (None, s1)" for s1
    using that split by (simp add: Manager_Close_def Let_def closeList_append)
  with split have att: "\<exists>ps qs.
      snapshot env' (?s'\<lparr>closed := True\<rparr>) = ps @ length (pool_heap s) # qs \<and>
      (\<forall>s1. closeList env' (?s'\<lparr>closed := True\<rparr>) ps = (None, s1) \<longrightarrow>
            Manager_Close env' ?s' =
              (case Pool_Close env' s1 (length (pool_heap s)) of
                 (Some e', s2) \<Rightarrow> (Some e', s2)
               | (None, s2) \<Rightarrow> closeList env' s2 qs))"
    by blast
  have reg: "DAList.lookup (pools ?s') (org' @ ''::'' @ name') = Some (length (pool_heap s))"
    and obj: "deref (pool_heap ?s') (Some (length (pool_heap s))) = Some ?pl"
    and err: "fst (NewPool env s org' name') = Inl e"
    by (simp_all add: np deref_def)
  from err reg obj mem att show ?thesis by blast
qed

text \<open>
  On \<open>sys1\<close>, a Pool (org, db) against a remote side that answers 500: \<^verbatim>\<open>NewPool\<close> fails,
  the Pool is object 1 of the heap and is registered, and a \<^verbatim>\<open>Manager.Close\<close> against a
  remote side that answers 200 closes web and then sends the delete for (org, db) too.
\<close>

theorem C9_newpool_registered_on_failure_witness:
  "\<not> closed sys1 \<and>
   CreateDeployment (answering resp500) (client sys1) ''org'' ''db'' (remote sys1) =
     (Some (ErrorsNew ''500 Internal Server Error''),
      snd (CreateDeployment (answering resp500) (client sys1) ''org'' ''db'' (remote sys1))) \<and>
   (\<forall>m. set (range_order (answering resp200) m) = set (DAList.impl_of m)) \<and>
   fst (NewPool (answering resp500) sys1 ''org'' ''db'') =
     Inl (ErrorsNew ''500 Internal Server Error'') \<and>
   DAList.lookup (pools (snd (NewPool (answering resp500) sys1 ''org'' ''db''))) ''org::db'' =
     Some 1 \<and>
   snapshot (answering resp200)
     ((snd (NewPool (answering resp500) sys1 ''org'' ''db''))\<lparr>closed := True\<rparr>) = [0] @ 1 # [] \<and>
   fst (closeList (answering resp200)
          ((snd (NewPool (answering resp500) sys1 ''org'' ''db''))\<lparr>closed := True\<rparr>) [0]) =
     None \<and>
   fst (Manager_Close (answering resp200)
          (snd (NewPool (answering resp500) sys1 ''org'' ''db''))) = None \<and>
   map (\<lambda>r. (Method r, URL r))
     (remote (snd (Manager_Close (answering resp200)
                     (snd (NewPool (answering resp500) sys1 ''org'' ''db''))))) =
     [(''PUT'', ''https://vms.example/deployments/api/v3/orgs/org/deployments/db''),
      (''DELETE'', ''https://vms.example/deployments/api/v3/orgs/org/deployments/web''),
      (''DELETE'', ''https://vms.example/deployments/api/v3/orgs/org/deployments/db'')]"
  using C9_newpool_registered_on_failure
    [of sys1 "answering resp500" "''org''" "''db''" "ErrorsNew ''500 Internal Server Error''"
        "snd (CreateDeployment (answering resp500) (client sys1) ''org'' ''db'' (remote sys1))"
        "answering resp200"]
  by (simp add: NewPool_def Let_def Manager_Close_def snapshot_def Pool_Close_def deref_def
        key_def sys_eval http_eval da_eval)

end
